theory Spec2Isabelle
  imports Main "HOL-Library.Multiset"
begin

section \<open>The storage gateway of the parish room booker\<close>

text \<open>
  A shallow embedding of \<^verbatim>\<open>src/services/storage.ts\<close>. The gateway keeps five entries
  in the browser's local storage, each the JSON text of a typed value; every operation
  parses the entries it needs, computes, and writes whole entries back.

  The model keeps the parsed values. An entry is \<open>None\<close> where
  \<^verbatim>\<open>localStorage.getItem\<close> gives a falsy result (the key is absent; the empty
  text, which no operation writes, reads the same), and \<open>Some v\<close> where it holds the
  serialisation of \<open>v\<close>; \<^verbatim>\<open>JSON.parse\<close> after \<^verbatim>\<open>JSON.stringify\<close> is
  taken to give the value back, which holds for the strings, integers, lists and plain
  objects stored here. Text that is not the JSON of a value of the entry's type, on
  which \<^verbatim>\<open>JSON.parse\<close> or a field access would throw, is outside the model.
  Promises and timers are left out: an operation is a function from its arguments and
  the store to the value the promise resolves with and the store it leaves.

  Strings are lists of 8-bit characters, read as the code units of the Latin-1 range;
  \<open>createdAt\<close> is a time stamp in milliseconds, an integer.
\<close>

subsection \<open>Types\<close>

text \<open>
  Modelled from the spec: \<^verbatim>\<open>../types\<close> is not among the sources. The fields of
  \<open>User\<close>, \<open>Room\<close> and \<open>AppConfig\<close> are those of the seed literals, and the
  members \<open>ADMIN\<close>, \<open>USER\<close> and \<open>PENDING\<close> are used by the code; the other
  booking statuses are the spec's. What a booking holds besides \<open>id\<close>, \<open>roomId\<close>,
  \<open>status\<close> and \<open>createdAt\<close> is a parameter, the field \<open>details\<close>.
\<close>

datatype UserRole = ADMIN | USER

datatype BookingStatus = PENDING | APPROVED | REJECTED | CANCELLED

text \<open>
  \<^verbatim>\<open>interface StoredUser extends User { password?: string }\<close>. At run time a User
  is an object that may or may not carry the key \<open>password\<close>; \<open>None\<close> is an object
  without it.
\<close>

record User =
  user_id :: string
  username :: string
  password :: "string option"
  role :: UserRole
  user_name :: string

record Room =
  room_id :: string
  room_name :: string
  capacity :: int
  features :: "string list"
  imageUrl :: string

record 'd Booking =
  booking_id :: string
  roomId :: string
  status :: BookingStatus
  createdAt :: int
  details :: 'd

record AppConfig =
  appName :: string
  appLogo :: string

text \<open>The entries of the local storage, named by the values of \<^verbatim>\<open>STORAGE_KEYS\<close>.\<close>

record 'd storage =
  app_users :: "User list option"
  app_rooms :: "Room list option"
  app_bookings :: "'d Booking list option"
  app_current_user :: "User option"
  app_config :: "AppConfig option"

definition empty_storage :: "'d storage" where
  "empty_storage =
     \<lparr>app_users = None, app_rooms = None, app_bookings = None,
      app_current_user = None, app_config = None\<rparr>"

subsection \<open>Built-ins of the language\<close>

text \<open>
  \<^verbatim>\<open>String.prototype.toLowerCase\<close> on the Latin-1 range: A to Z, and the accented
  capitals 192 to 222 but the multiplication sign 215, move up by 32.
\<close>

definition lower_char :: "char \<Rightarrow> char" where
  "lower_char c =
     (let n = (of_char c :: nat) in
      if (65 \<le> n \<and> n \<le> 90) \<or> (192 \<le> n \<and> n \<le> 222 \<and> n \<noteq> 215)
      then char_of (n + 32) else c)"

definition toLowerCase :: "string \<Rightarrow> string" where
  "toLowerCase s = map lower_char s"

text \<open>The decimal text of a time stamp, as a template literal and \<^verbatim>\<open>toString\<close> give it.\<close>

fun toString :: "nat \<Rightarrow> string" where
  "toString n =
     (if n < 10 then [char_of (48 + n)]
      else toString (n div 10) @ [char_of (48 + n mod 10)])"

declare toString.simps [simp del]

text \<open>
  \<^verbatim>\<open>Array.prototype.find\<close> is \<^const>\<open>List.find\<close>: the first element that
  satisfies the predicate, or \<open>None\<close> for \<^verbatim>\<open>undefined\<close>.

  \<^verbatim>\<open>Array.prototype.sort\<close> with a comparator is a stable sort: \<open>a\<close> stays before
  \<open>b\<close> unless the comparator is positive on them. With a consistent comparator the
  result does not depend on the engine's algorithm; the model inserts from the right.
\<close>

fun sort_insert :: "('a \<Rightarrow> 'a \<Rightarrow> int) \<Rightarrow> 'a \<Rightarrow> 'a list \<Rightarrow> 'a list" where
  "sort_insert cmp a [] = [a]"
| "sort_insert cmp a (b # bs) =
     (if cmp a b > 0 then b # sort_insert cmp a bs else a # b # bs)"

fun array_sort :: "('a \<Rightarrow> 'a \<Rightarrow> int) \<Rightarrow> 'a list \<Rightarrow> 'a list" where
  "array_sort cmp [] = []"
| "array_sort cmp (a # as) = sort_insert cmp a (array_sort cmp as)"

subsection \<open>Seed data\<close>

definition SEED_ROOMS :: "Room list" where
  "SEED_ROOMS =
     [\<lparr>room_id = ''room-1'',
       room_name = ''Sal'' @ [CHR 0xF3] @ ''n Parroquial Principal'',
       capacity = 50,
       features = [''Proyector'', ''Aire Acondicionado'',
                   ''Pizarr'' @ [CHR 0xF3] @ ''n'', ''Sillas''],
       imageUrl = ''https://picsum.photos/400/300?random=1''\<rparr>]"

definition SEED_USERS :: "User list" where
  "SEED_USERS =
     [\<lparr>user_id = ''u1'', username = ''admin'', password = Some ''password'',
       role = ADMIN, user_name = ''Administrador Principal''\<rparr>,
      \<lparr>user_id = ''u2'', username = ''user'', password = Some ''password'',
       role = USER, user_name = ''Juan P'' @ [CHR 0xE9] @ ''rez''\<rparr>]"

definition SEED_CONFIG :: AppConfig where
  "SEED_CONFIG = \<lparr>appName = ''Parish Booker'', appLogo = ''fa-church''\<rparr>"

subsection \<open>Initialisation\<close>

text \<open>Four tests in the order of the source, each on the store the one before left.\<close>

definition initializeStorage :: "'d storage \<Rightarrow> 'd storage" where
  "initializeStorage st =
     (let st1 = (if app_rooms st = None then st\<lparr>app_rooms := Some SEED_ROOMS\<rparr> else st);
          st2 = (if app_bookings st1 = None then st1\<lparr>app_bookings := Some []\<rparr> else st1);
          st3 = (if app_users st2 = None then st2\<lparr>app_users := Some SEED_USERS\<rparr> else st2)
      in if app_config st3 = None then st3\<lparr>app_config := Some SEED_CONFIG\<rparr> else st3)"

subsection \<open>Reading a collection\<close>

text \<open>\<^verbatim>\<open>JSON.parse(localStorage.getItem(KEY) || '[]')\<close>, once for each collection.\<close>

definition read_users :: "'d storage \<Rightarrow> User list" where
  "read_users st = (case app_users st of None \<Rightarrow> [] | Some us \<Rightarrow> us)"

definition read_rooms :: "'d storage \<Rightarrow> Room list" where
  "read_rooms st = (case app_rooms st of None \<Rightarrow> [] | Some rs \<Rightarrow> rs)"

definition read_bookings :: "'d storage \<Rightarrow> 'd Booking list" where
  "read_bookings st = (case app_bookings st of None \<Rightarrow> [] | Some bs \<Rightarrow> bs)"

subsection \<open>Configuration\<close>

definition getAppConfig :: "'d storage \<Rightarrow> AppConfig" where
  "getAppConfig st = (case app_config st of None \<Rightarrow> SEED_CONFIG | Some c \<Rightarrow> c)"

definition updateAppConfig :: "AppConfig \<Rightarrow> 'd storage \<Rightarrow> bool \<times> 'd storage" where
  "updateAppConfig config st = (True, st\<lparr>app_config := Some config\<rparr>)"

subsection \<open>Authentication\<close>

text \<open>
  \<open>login\<close> resolves with \<open>None\<close> for \<^verbatim>\<open>null\<close>. The rest pattern
  \<^verbatim>\<open>const { password, ...safeUser } = user\<close> copies every key but \<open>password\<close>.
\<close>

definition login :: "string \<Rightarrow> string \<Rightarrow> 'd storage \<Rightarrow> User option \<times> 'd storage" where
  "login uname passwordInput st =
     (let users = read_users st;
          user = find (\<lambda>u. toLowerCase (username u) = toLowerCase uname) users
      in case user of
           None \<Rightarrow> (None, st)
         | Some u \<Rightarrow>
             if password u = Some passwordInput
             then (let safeUser = u\<lparr>password := None\<rparr>
                   in (Some safeUser, st\<lparr>app_current_user := Some safeUser\<rparr>))
             else (None, st))"

text \<open>
  \<open>register\<close> resolves with a message (\<open>Inl\<close>) or with the new user (\<open>Inr\<close>).
  \<open>now\<close> is what \<^verbatim>\<open>Date.now()\<close> returns.
\<close>

definition register ::
  "string \<Rightarrow> string \<Rightarrow> string \<Rightarrow> nat \<Rightarrow> 'd storage \<Rightarrow> (string + User) \<times> 'd storage" where
  "register nm uname pw now st =
     (let users = read_users st in
      if find (\<lambda>u. toLowerCase (username u) = toLowerCase uname) users \<noteq> None
      then (Inl ''El nombre de usuario ya existe.'', st)
      else
        (let newUser = \<lparr>user_id = ''u-'' @ toString now, username = uname,
                        password = Some pw, role = USER, user_name = nm\<rparr>;
             st1 = st\<lparr>app_users := Some (users @ [newUser])\<rparr>;
             safeUser = newUser\<lparr>password := None\<rparr>
         in (Inr safeUser, st1\<lparr>app_current_user := Some safeUser\<rparr>)))"

definition logout :: "'d storage \<Rightarrow> 'd storage" where
  "logout st = st\<lparr>app_current_user := None\<rparr>"

definition getCurrentUser :: "'d storage \<Rightarrow> User option" where
  "getCurrentUser st = app_current_user st"

definition updatePassword :: "string \<Rightarrow> string \<Rightarrow> 'd storage \<Rightarrow> bool \<times> 'd storage" where
  "updatePassword userId newPassword st =
     (let users = read_users st;
          updatedUsers =
            map (\<lambda>u. if user_id u = userId then u\<lparr>password := Some newPassword\<rparr> else u) users
      in (True, st\<lparr>app_users := Some updatedUsers\<rparr>))"

subsection \<open>Rooms\<close>

definition getRooms :: "'d storage \<Rightarrow> Room list" where
  "getRooms st = read_rooms st"

text \<open>\<open>roomData\<close> is a room whose \<open>id\<close> the spread overwrites.\<close>

definition addRoom :: "Room \<Rightarrow> nat \<Rightarrow> 'd storage \<Rightarrow> bool \<times> 'd storage" where
  "addRoom roomData now st =
     (let rooms = read_rooms st;
          newRoom = roomData\<lparr>room_id := ''room-'' @ toString now\<rparr>
      in (True, st\<lparr>app_rooms := Some (rooms @ [newRoom])\<rparr>))"

definition updateRoom :: "Room \<Rightarrow> 'd storage \<Rightarrow> bool \<times> 'd storage" where
  "updateRoom updatedRoom st =
     (let rooms = read_rooms st;
          newRooms = map (\<lambda>r. if room_id r = room_id updatedRoom then updatedRoom else r) rooms
      in (True, st\<lparr>app_rooms := Some newRooms\<rparr>))"

text \<open>The bookings are read after the rooms are written; the two entries are apart.\<close>

definition deleteRoom :: "string \<Rightarrow> 'd storage \<Rightarrow> bool \<times> 'd storage" where
  "deleteRoom rid st =
     (let rooms = read_rooms st;
          newRooms = filter (\<lambda>r. room_id r \<noteq> rid) rooms;
          st1 = st\<lparr>app_rooms := Some newRooms\<rparr>;
          bookings = read_bookings st1;
          newBookings = filter (\<lambda>b. roomId b \<noteq> rid) bookings
      in (True, st1\<lparr>app_bookings := Some newBookings\<rparr>))"

subsection \<open>Bookings\<close>

text \<open>
  \<^verbatim>\<open>Date.now()\<close> is called twice in \<open>createBooking\<close>, for the id and for
  \<open>createdAt\<close>: two arguments.
\<close>

definition createBooking :: "'d Booking \<Rightarrow> nat \<Rightarrow> nat \<Rightarrow> 'd storage \<Rightarrow> bool \<times> 'd storage" where
  "createBooking booking now1 now2 st =
     (let bookings = read_bookings st;
          newBooking = booking\<lparr>booking_id := toString now1, status := PENDING,
                               createdAt := int now2\<rparr>
      in (True, st\<lparr>app_bookings := Some (bookings @ [newBooking])\<rparr>))"

text \<open>The comparator of the source; the sorted copy is resolved, not written back.\<close>

definition newest_first :: "'d Booking \<Rightarrow> 'd Booking \<Rightarrow> int" where
  "newest_first a b = createdAt b - createdAt a"

definition getBookings :: "'d storage \<Rightarrow> 'd Booking list" where
  "getBookings st = array_sort newest_first (read_bookings st)"

definition updateBookingStatus ::
  "string \<Rightarrow> BookingStatus \<Rightarrow> 'd storage \<Rightarrow> bool \<times> 'd storage" where
  "updateBookingStatus bookingId s st =
     (let bookings = read_bookings st;
          updatedBookings =
            map (\<lambda>b. if booking_id b = bookingId then b\<lparr>status := s\<rparr> else b) bookings
      in (True, st\<lparr>app_bookings := Some updatedBookings\<rparr>))"

definition updateBooking :: "'d Booking \<Rightarrow> 'd storage \<Rightarrow> bool \<times> 'd storage" where
  "updateBooking updatedBooking st =
     (let bookings = read_bookings st;
          newBookings =
            map (\<lambda>b. if booking_id b = booking_id updatedBooking then updatedBooking else b)
              bookings
      in (True, st\<lparr>app_bookings := Some newBookings\<rparr>))"

subsection \<open>The operations as transitions of the store\<close>

text \<open>
  One constructor for each operation that can write, with its arguments and the time
  stamps it reads; \<open>perform\<close> is the store it leaves. The four reads
  (\<open>getAppConfig\<close>, \<open>getCurrentUser\<close>, \<open>getRooms\<close>, \<open>getBookings\<close>) write
  nothing.

  The module calls \<^verbatim>\<open>initializeStorage()\<close> when it is loaded (line 54), before any
  operation can be called, and nothing but the gateway writes the entries. So the store
  an operation meets is \<open>perform_all xs (initializeStorage st0)\<close> for the store \<open>st0\<close>
  the module was loaded on and the operations \<open>xs\<close> run since, and \<open>st0\<close> is
  \<open>empty_storage\<close> in a fresh browser or a store an earlier run of the gateway left:
  in all, a store \<open>perform_all xs empty_storage\<close>.
\<close>

datatype 'd operation =
    InitializeStorage
  | UpdateAppConfig AppConfig
  | Login string string
  | Register string string string nat
  | Logout
  | UpdatePassword string string
  | AddRoom Room nat
  | UpdateRoom Room
  | DeleteRoom string
  | CreateBooking "'d Booking" nat nat
  | UpdateBookingStatus string BookingStatus
  | UpdateBooking "'d Booking"

fun perform :: "'d operation \<Rightarrow> 'd storage \<Rightarrow> 'd storage" where
  "perform InitializeStorage st = initializeStorage st"
| "perform (UpdateAppConfig c) st = snd (updateAppConfig c st)"
| "perform (Login u p) st = snd (login u p st)"
| "perform (Register nm u p now) st = snd (register nm u p now st)"
| "perform Logout st = logout st"
| "perform (UpdatePassword i p) st = snd (updatePassword i p st)"
| "perform (AddRoom r now) st = snd (addRoom r now st)"
| "perform (UpdateRoom r) st = snd (updateRoom r st)"
| "perform (DeleteRoom i) st = snd (deleteRoom i st)"
| "perform (CreateBooking b now1 now2) st = snd (createBooking b now1 now2 st)"
| "perform (UpdateBookingStatus i s) st = snd (updateBookingStatus i s st)"
| "perform (UpdateBooking b) st = snd (updateBooking b st)"

fun perform_all :: "'d operation list \<Rightarrow> 'd storage \<Rightarrow> 'd storage" where
  "perform_all [] st = st"
| "perform_all (x # xs) st = perform_all xs (perform x st)"

subsection \<open>Three properties of a store\<close>

text \<open>The session entry, when there is one, carries no password.\<close>

definition session_safe :: "'d storage \<Rightarrow> bool" where
  "session_safe st =
     (case app_current_user st of None \<Rightarrow> True | Some u \<Rightarrow> password u = None)"

text \<open>No two stored users have the same user name up to case.\<close>

definition unique_usernames :: "'d storage \<Rightarrow> bool" where
  "unique_usernames st = distinct (map (\<lambda>u. toLowerCase (username u)) (read_users st))"

text \<open>The four keys that \<open>initializeStorage\<close> seeds are in the store.\<close>

definition keys_present :: "'d storage \<Rightarrow> bool" where
  "keys_present st =
     (app_rooms st \<noteq> None \<and> app_bookings st \<noteq> None \<and> app_users st \<noteq> None \<and>
      app_config st \<noteq> None)"

subsection \<open>A store for the examples\<close>

text \<open>
  The seed with a second room, three bookings out of order in time, the last of them
  for a room that is not there, and nobody logged in.
\<close>

definition demo_storage :: "unit storage" where
  "demo_storage =
     \<lparr>app_users = Some SEED_USERS,
      app_rooms = Some (SEED_ROOMS @
        [\<lparr>room_id = ''room-2'', room_name = ''Aula'', capacity = 12, features = [],
          imageUrl = ''''\<rparr>]),
      app_bookings = Some
        [\<lparr>booking_id = ''100'', roomId = ''room-1'', status = PENDING,
          createdAt = 100, details = ()\<rparr>,
         \<lparr>booking_id = ''300'', roomId = ''room-2'', status = APPROVED,
          createdAt = 300, details = ()\<rparr>,
         \<lparr>booking_id = ''200'', roomId = ''room-9'', status = PENDING,
          createdAt = 200, details = ()\<rparr>],
      app_current_user = None,
      app_config = Some SEED_CONFIG\<rparr>"

section \<open>Properties\<close>

subsection \<open>Evaluation of the built-ins on the examples\<close>

lemma lower_admin: "toLowerCase ''admin'' = ''admin''"
  by code_simp

lemma lower_Admin: "toLowerCase ''Admin'' = ''admin''"
  by code_simp

lemma lower_ADMIN: "toLowerCase ''ADMIN'' = ''admin''"
  by code_simp

lemma lower_user: "toLowerCase ''user'' = ''user''"
  by code_simp

lemma lower_ana: "toLowerCase ''ana'' = ''ana''"
  by code_simp

lemma toString_1730: "toString 1730 = ''1730''"
  by code_simp

subsection \<open>Lists and entries\<close>

lemma find_lower_iff:
  "(find (\<lambda>u. toLowerCase (username u) = k) us \<noteq> None) =
   (\<exists>u \<in> set us. toLowerCase (username u) = k)"
  by (auto simp: find_None_iff)

lemma find_unique:
  assumes "distinct (map (\<lambda>u. toLowerCase (username u)) us)"
    and "r \<in> set us" and "toLowerCase (username r) = k"
  shows "find (\<lambda>u. toLowerCase (username u) = k) us = Some r"
  using assms
proof (induction us)
  case Nil
  then show ?case by simp
next
  case (Cons a us)
  show ?case
  proof (cases "toLowerCase (username a) = k")
    case True
    with Cons.prems have "r = a" by (auto simp: image_iff)
    with True show ?thesis by simp
  next
    case False
    with Cons show ?thesis by auto
  qed
qed

lemma map_replace_absent:
  "k \<notin> f ` set xs \<Longrightarrow> map (\<lambda>x. if f x = k then g x else x) xs = xs"
  by (induction xs) auto

lemma filter_absent: "k \<notin> f ` set xs \<Longrightarrow> filter (\<lambda>x. f x \<noteq> k) xs = xs"
  by (induction xs) auto

text \<open>Writing back the collection that was read changes nothing when the key is there.\<close>

lemma users_entry_same: "app_users st = Some us \<Longrightarrow> st\<lparr>app_users := Some us\<rparr> = st"
  by (cases st) simp

lemma rooms_entry_same: "app_rooms st = Some rs \<Longrightarrow> st\<lparr>app_rooms := Some rs\<rparr> = st"
  by (cases st) simp

lemma bookings_entry_same: "app_bookings st = Some bs \<Longrightarrow> st\<lparr>app_bookings := Some bs\<rparr> = st"
  by (cases st) simp

lemma users_rewritten:
  "read_users (st\<lparr>app_users := Some (read_users st)\<rparr>) = read_users st"
  "app_users st \<noteq> None \<Longrightarrow> st\<lparr>app_users := Some (read_users st)\<rparr> = st"
  by (auto simp: read_users_def users_entry_same)

lemma rooms_rewritten:
  "read_rooms (st\<lparr>app_rooms := Some (read_rooms st)\<rparr>) = read_rooms st"
  "app_rooms st \<noteq> None \<Longrightarrow> st\<lparr>app_rooms := Some (read_rooms st)\<rparr> = st"
  by (auto simp: read_rooms_def rooms_entry_same)

lemma bookings_rewritten:
  "read_bookings (st\<lparr>app_bookings := Some (read_bookings st)\<rparr>) = read_bookings st"
  "app_bookings st \<noteq> None \<Longrightarrow> st\<lparr>app_bookings := Some (read_bookings st)\<rparr> = st"
  by (auto simp: read_bookings_def bookings_entry_same)

subsection \<open>Deleting a room\<close>

text \<open>
  Claim C1. For every room id \<open>r\<close> and every store, \<open>deleteRoom r\<close> resolves with
  true; afterwards no room has id \<open>r\<close> and no booking has \<open>roomId\<close> \<open>r\<close>; every room
  with another id and every booking for another room is still there. The collections
  left are exactly the old ones without the entries for \<open>r\<close>, in the old order.
\<close>

theorem deleteRoom_cascade:
  "fst (deleteRoom r st) = True \<and>
   (\<forall>x \<in> set (read_rooms (snd (deleteRoom r st))). room_id x \<noteq> r) \<and>
   (\<forall>b \<in> set (read_bookings (snd (deleteRoom r st))). roomId b \<noteq> r) \<and>
   (\<forall>x \<in> set (read_rooms st).
      room_id x \<noteq> r \<longrightarrow> x \<in> set (read_rooms (snd (deleteRoom r st)))) \<and>
   (\<forall>b \<in> set (read_bookings st).
      roomId b \<noteq> r \<longrightarrow> b \<in> set (read_bookings (snd (deleteRoom r st)))) \<and>
   read_rooms (snd (deleteRoom r st)) = filter (\<lambda>x. room_id x \<noteq> r) (read_rooms st) \<and>
   read_bookings (snd (deleteRoom r st)) = filter (\<lambda>b. roomId b \<noteq> r) (read_bookings st)"
  by (simp add: deleteRoom_def read_rooms_def read_bookings_def Let_def)

theorem deleteRoom_cascade_witness:
  "map room_id (read_rooms (snd (deleteRoom ''room-1'' demo_storage))) = [''room-2''] \<and>
   map booking_id (read_bookings (snd (deleteRoom ''room-1'' demo_storage))) =
     [''300'', ''200'']"
  using deleteRoom_cascade [of "''room-1''" demo_storage]
  by (simp add: demo_storage_def SEED_ROOMS_def read_rooms_def read_bookings_def)

subsection \<open>Logging in\<close>

lemma login_users: "read_users (snd (login u p st)) = read_users st"
  by (simp add: login_def Let_def read_users_def split: option.splits)

lemma register_users:
  "read_users (snd (register nm u p now st)) =
   (if \<exists>x \<in> set (read_users st). toLowerCase (username x) = toLowerCase u
    then read_users st
    else read_users st @
      [\<lparr>user_id = ''u-'' @ toString now, username = u, password = Some p,
        role = USER, user_name = nm\<rparr>])"
  unfolding register_def Let_def find_lower_iff
  by (simp add: read_users_def)

lemma initializeStorage_users:
  "read_users (initializeStorage st) =
   (case app_users st of None \<Rightarrow> SEED_USERS | Some us \<Rightarrow> us)"
  by (simp add: initializeStorage_def Let_def read_users_def split: option.splits)

lemma updatePassword_usernames:
  "map (\<lambda>u. toLowerCase (username u)) (read_users (snd (updatePassword i p st))) =
   map (\<lambda>u. toLowerCase (username u)) (read_users st)"
  by (simp add: updatePassword_def Let_def read_users_def comp_def if_distrib cong: if_cong)

text \<open>Every operation keeps the user names apart; only \<open>register\<close> adds one.\<close>

lemma perform_unique_usernames: "unique_usernames st \<Longrightarrow> unique_usernames (perform x st)"
proof (cases x)
  case InitializeStorage
  assume "unique_usernames st"
  then have "distinct (map (\<lambda>u. toLowerCase (username u))
      (case app_users st of None \<Rightarrow> SEED_USERS | Some us \<Rightarrow> us))"
    by (simp add: unique_usernames_def read_users_def SEED_USERS_def lower_admin lower_user
        split: option.splits)
  with InitializeStorage show ?thesis
    by (simp add: unique_usernames_def initializeStorage_users)
next
  case (Login u p)
  assume "unique_usernames st"
  with Login show ?thesis by (simp add: unique_usernames_def login_users)
next
  case (Register nm u p now)
  assume "unique_usernames st"
  with Register show ?thesis by (auto simp: unique_usernames_def register_users)
next
  case (UpdatePassword i p)
  assume "unique_usernames st"
  with UpdatePassword show ?thesis
    by (simp add: unique_usernames_def updatePassword_usernames)
qed (simp_all add: unique_usernames_def read_users_def updateAppConfig_def logout_def
      addRoom_def updateRoom_def deleteRoom_def createBooking_def updateBookingStatus_def
      updateBooking_def Let_def)

lemma perform_all_unique_usernames:
  "unique_usernames st \<Longrightarrow> unique_usernames (perform_all xs st)"
  by (induction xs arbitrary: st) (simp_all add: perform_unique_usernames)

lemma empty_storage_unique_usernames: "unique_usernames empty_storage"
  by (simp add: unique_usernames_def read_users_def empty_storage_def)

lemma login_iff_unique:
  assumes d: "unique_usernames st"
  shows "(\<exists>usr. fst (login u p st) = Some usr) =
      (\<exists>r \<in> set (read_users st). toLowerCase (username r) = toLowerCase u \<and>
         password r = Some p)"
proof
  assume "\<exists>usr. fst (login u p st) = Some usr"
  then obtain r
    where f: "find (\<lambda>x. toLowerCase (username x) = toLowerCase u) (read_users st) = Some r"
      and pw: "password r = Some p"
    by (auto simp: login_def Let_def split: option.splits if_splits)
  from f have "r \<in> set (read_users st)" "toLowerCase (username r) = toLowerCase u"
    by (auto simp: find_Some_iff)
  with pw
  show "\<exists>r \<in> set (read_users st). toLowerCase (username r) = toLowerCase u \<and>
      password r = Some p"
    by blast
next
  assume "\<exists>r \<in> set (read_users st). toLowerCase (username r) = toLowerCase u \<and>
      password r = Some p"
  then obtain r where r: "r \<in> set (read_users st)"
    "toLowerCase (username r) = toLowerCase u" "password r = Some p" by blast
  from d have "distinct (map (\<lambda>u. toLowerCase (username u)) (read_users st))"
    by (simp add: unique_usernames_def)
  from find_unique [OF this r(1) r(2)] r(3)
  show "\<exists>usr. fst (login u p st) = Some usr"
    by (simp add: login_def Let_def)
qed

text \<open>
  Claim C2. For every user name \<open>u\<close> and password \<open>p\<close>, in every store that the
  gateway makes of the empty store, \<open>login u p\<close> resolves with a user if and only if
  some stored user has a name equal to \<open>u\<close> up to case and the password \<open>p\<close>, and with
  null in every other case. The same holds in any store where no two user names are
  equal up to case, and every operation keeps such a store so; \<open>register\<close> is the one
  that adds a name, and it refuses a name that is there. In every store the user
  resolved with is a stored user of that name and password, without the password, and
  becomes the session; when null is resolved the store, and so the session, is as
  before.
\<close>

theorem login_correct:
  "((\<exists>usr. fst (login u p (perform_all xs empty_storage)) = Some usr) =
      (\<exists>r \<in> set (read_users (perform_all xs empty_storage)).
         toLowerCase (username r) = toLowerCase u \<and> password r = Some p)) \<and>
   ((\<forall>r \<in> set (read_users (perform_all xs empty_storage)).
         \<not> (toLowerCase (username r) = toLowerCase u \<and> password r = Some p)) \<longrightarrow>
      login u p (perform_all xs empty_storage) = (None, perform_all xs empty_storage)) \<and>
   (unique_usernames st \<longrightarrow>
      (\<exists>usr. fst (login u p st) = Some usr) =
      (\<exists>r \<in> set (read_users st). toLowerCase (username r) = toLowerCase u \<and>
         password r = Some p)) \<and>
   (unique_usernames st \<longrightarrow> unique_usernames (perform_all xs st)) \<and>
   (\<forall>usr. fst (login u p st) = Some usr \<longrightarrow>
      (\<exists>r \<in> set (read_users st). toLowerCase (username r) = toLowerCase u \<and>
         password r = Some p \<and> usr = r\<lparr>password := None\<rparr>) \<and>
      snd (login u p st) = st\<lparr>app_current_user := Some usr\<rparr>) \<and>
   (fst (login u p st) = None \<longrightarrow> snd (login u p st) = st)"
proof (intro conjI allI impI)
  have reach: "unique_usernames (perform_all xs empty_storage)"
    by (rule perform_all_unique_usernames) (rule empty_storage_unique_usernames)
  then show iff: "(\<exists>usr. fst (login u p (perform_all xs empty_storage)) = Some usr) =
      (\<exists>r \<in> set (read_users (perform_all xs empty_storage)).
         toLowerCase (username r) = toLowerCase u \<and> password r = Some p)"
    by (rule login_iff_unique)
  assume "\<forall>r \<in> set (read_users (perform_all xs empty_storage)).
         \<not> (toLowerCase (username r) = toLowerCase u \<and> password r = Some p)"
  with iff have "fst (login u p (perform_all xs empty_storage)) = None" by auto
  then show "login u p (perform_all xs empty_storage) = (None, perform_all xs empty_storage)"
    by (auto simp: login_def Let_def split: option.splits if_splits)
next
  assume "unique_usernames st"
  then show "(\<exists>usr. fst (login u p st) = Some usr) =
      (\<exists>r \<in> set (read_users st). toLowerCase (username r) = toLowerCase u \<and>
         password r = Some p)"
    by (rule login_iff_unique)
next
  assume "unique_usernames st"
  then show "unique_usernames (perform_all xs st)" by (rule perform_all_unique_usernames)
next
  fix usr assume a: "fst (login u p st) = Some usr"
  then obtain r
    where f: "find (\<lambda>x. toLowerCase (username x) = toLowerCase u) (read_users st) = Some r"
      and pw: "password r = Some p" and usr: "usr = r\<lparr>password := None\<rparr>"
    by (auto simp: login_def Let_def split: option.splits if_splits)
  from f have "r \<in> set (read_users st)" "toLowerCase (username r) = toLowerCase u"
    by (auto simp: find_Some_iff)
  with pw usr
  show "\<exists>r \<in> set (read_users st). toLowerCase (username r) = toLowerCase u \<and>
         password r = Some p \<and> usr = r\<lparr>password := None\<rparr>" by blast
  from a show "snd (login u p st) = st\<lparr>app_current_user := Some usr\<rparr>"
    by (auto simp: login_def Let_def split: option.splits if_splits)
next
  assume "fst (login u p st) = None"
  then show "snd (login u p st) = st"
    by (auto simp: login_def Let_def split: option.splits if_splits)
qed

theorem login_correct_witness:
  "read_users (perform_all [InitializeStorage] (empty_storage :: unit storage)) = SEED_USERS \<and>
   fst (login ''ADMIN'' ''password''
     (perform_all [InitializeStorage] (empty_storage :: unit storage))) \<noteq> None \<and>
   login ''ADMIN'' ''admin'' (perform_all [InitializeStorage] (empty_storage :: unit storage)) =
     (None, perform_all [InitializeStorage] empty_storage) \<and>
   unique_usernames demo_storage \<and>
   fst (login ''ADMIN'' ''password'' demo_storage) =
     Some \<lparr>user_id = ''u1'', username = ''admin'', password = None,
           role = ADMIN, user_name = ''Administrador Principal''\<rparr> \<and>
   app_current_user (snd (login ''ADMIN'' ''password'' demo_storage)) =
     Some \<lparr>user_id = ''u1'', username = ''admin'', password = None,
           role = ADMIN, user_name = ''Administrador Principal''\<rparr> \<and>
   fst (login ''admin'' ''Password'' demo_storage) = None \<and>
   snd (login ''admin'' ''Password'' demo_storage) = demo_storage"
proof -
  have seeded: "read_users (perform_all [InitializeStorage] (empty_storage :: unit storage)) =
      SEED_USERS"
    by (simp add: initializeStorage_users empty_storage_def)
  have hit: "\<exists>r \<in> set (read_users (perform_all [InitializeStorage]
        (empty_storage :: unit storage))).
      toLowerCase (username r) = toLowerCase ''ADMIN'' \<and> password r = Some ''password''"
    unfolding seeded by (simp add: SEED_USERS_def lower_admin lower_ADMIN)
  have miss: "\<forall>r \<in> set (read_users (perform_all [InitializeStorage]
        (empty_storage :: unit storage))).
      \<not> (toLowerCase (username r) = toLowerCase ''ADMIN'' \<and> password r = Some ''admin'')"
    unfolding seeded by (simp add: SEED_USERS_def)
  from login_correct [where u = "''ADMIN''" and p = "''password''"
      and xs = "[InitializeStorage :: unit operation]"] hit
  have r1: "fst (login ''ADMIN'' ''password''
     (perform_all [InitializeStorage] (empty_storage :: unit storage))) \<noteq> None"
    by auto
  from login_correct [where u = "''ADMIN''" and p = "''admin''"
      and xs = "[InitializeStorage :: unit operation]"] miss
  have r2: "login ''ADMIN'' ''admin''
      (perform_all [InitializeStorage] (empty_storage :: unit storage)) =
     (None, perform_all [InitializeStorage] empty_storage)"
    by blast
  have d: "unique_usernames demo_storage"
    by (simp add: unique_usernames_def demo_storage_def read_users_def SEED_USERS_def
        lower_admin lower_user)
  have ok: "fst (login ''ADMIN'' ''password'' demo_storage) =
     Some \<lparr>user_id = ''u1'', username = ''admin'', password = None,
           role = ADMIN, user_name = ''Administrador Principal''\<rparr>"
    by (simp add: login_def demo_storage_def read_users_def SEED_USERS_def lower_admin
        lower_ADMIN Let_def)
  have bad: "fst (login ''admin'' ''Password'' demo_storage) = None"
    by (simp add: login_def demo_storage_def read_users_def SEED_USERS_def lower_admin
        Let_def)
  from login_correct [where u = "''ADMIN''" and p = "''password''" and st = demo_storage] ok
  have s: "snd (login ''ADMIN'' ''password'' demo_storage) =
     demo_storage\<lparr>app_current_user :=
       Some \<lparr>user_id = ''u1'', username = ''admin'', password = None,
             role = ADMIN, user_name = ''Administrador Principal''\<rparr>\<rparr>"
    by blast
  from login_correct [where u = "''admin''" and p = "''Password''" and st = demo_storage] bad
  have "snd (login ''admin'' ''Password'' demo_storage) = demo_storage" by blast
  with seeded r1 r2 d ok bad s show ?thesis by simp
qed

subsection \<open>Registering\<close>

text \<open>
  Claim C3. When some stored user has a name equal to the requested one up to case,
  \<open>register\<close> resolves with the message and the store, with its users, is as before.
  When there is none, it resolves with the new user, and the users are the old ones
  followed by that one user, who is stored with the password and resolved without it.
\<close>

theorem register_unique_username:
  "((\<exists>x \<in> set (read_users st). toLowerCase (username x) = toLowerCase u) \<longrightarrow>
      register nm u pw now st = (Inl ''El nombre de usuario ya existe.'', st)) \<and>
   (\<not> (\<exists>x \<in> set (read_users st). toLowerCase (username x) = toLowerCase u) \<longrightarrow>
      fst (register nm u pw now st) =
        Inr \<lparr>user_id = ''u-'' @ toString now, username = u, password = None,
             role = USER, user_name = nm\<rparr> \<and>
      read_users (snd (register nm u pw now st)) =
        read_users st @
          [\<lparr>user_id = ''u-'' @ toString now, username = u, password = Some pw,
            role = USER, user_name = nm\<rparr>] \<and>
      length (read_users (snd (register nm u pw now st))) = Suc (length (read_users st)) \<and>
      app_rooms (snd (register nm u pw now st)) = app_rooms st \<and>
      app_bookings (snd (register nm u pw now st)) = app_bookings st \<and>
      app_config (snd (register nm u pw now st)) = app_config st)"
  unfolding register_def Let_def find_lower_iff
  by (simp add: read_users_def)

theorem register_unique_username_witness:
  "register ''Eve'' ''Admin'' ''pw'' 1730 demo_storage =
     (Inl ''El nombre de usuario ya existe.'', demo_storage) \<and>
   fst (register ''Ana'' ''ana'' ''pw'' 1730 demo_storage) =
     Inr \<lparr>user_id = ''u-1730'', username = ''ana'', password = None,
          role = USER, user_name = ''Ana''\<rparr> \<and>
   map username (read_users (snd (register ''Ana'' ''ana'' ''pw'' 1730 demo_storage))) =
     [''admin'', ''user'', ''ana'']"
proof -
  have taken: "\<exists>x \<in> set (read_users demo_storage).
      toLowerCase (username x) = toLowerCase ''Admin''"
    by (simp add: demo_storage_def read_users_def SEED_USERS_def lower_admin lower_Admin)
  have free: "\<not> (\<exists>x \<in> set (read_users demo_storage).
      toLowerCase (username x) = toLowerCase ''ana'')"
    by (simp add: demo_storage_def read_users_def SEED_USERS_def lower_admin lower_user
        lower_ana)
  have us: "map username (read_users demo_storage) = [''admin'', ''user'']"
    by (simp add: demo_storage_def read_users_def SEED_USERS_def)
  from register_unique_username [of demo_storage "''Admin''" "''Eve''" "''pw''" 1730] taken
  have a: "register ''Eve'' ''Admin'' ''pw'' 1730 demo_storage =
     (Inl ''El nombre de usuario ya existe.'', demo_storage)" by blast
  from register_unique_username [of demo_storage "''ana''" "''Ana''" "''pw''" 1730] free
  have b: "fst (register ''Ana'' ''ana'' ''pw'' 1730 demo_storage) =
        Inr \<lparr>user_id = ''u-'' @ toString 1730, username = ''ana'', password = None,
             role = USER, user_name = ''Ana''\<rparr>"
    and c: "read_users (snd (register ''Ana'' ''ana'' ''pw'' 1730 demo_storage)) =
        read_users demo_storage @
          [\<lparr>user_id = ''u-'' @ toString 1730, username = ''ana'', password = Some ''pw'',
            role = USER, user_name = ''Ana''\<rparr>]"
    by blast+
  from a b c us show ?thesis by (simp add: toString_1730)
qed

subsection \<open>Passwords in the values handed out\<close>

lemma login_session_safe: "session_safe st \<Longrightarrow> session_safe (snd (login u p st))"
  by (simp add: login_def session_safe_def Let_def split: option.splits)

lemma register_session_safe:
  "session_safe st \<Longrightarrow> session_safe (snd (register nm u p now st))"
  by (simp add: register_def session_safe_def Let_def)

lemma initializeStorage_session:
  "app_current_user (initializeStorage st) = app_current_user st"
  by (simp add: initializeStorage_def Let_def)

lemma perform_session_safe: "session_safe st \<Longrightarrow> session_safe (perform x st)"
proof (cases x)
  case (Login u p)
  assume "session_safe st"
  with Login show ?thesis by (simp add: login_session_safe)
next
  case (Register nm u p now)
  assume "session_safe st"
  with Register show ?thesis by (simp add: register_session_safe)
next
  case InitializeStorage
  assume "session_safe st"
  with InitializeStorage show ?thesis
    by (simp add: session_safe_def initializeStorage_session)
qed (simp_all add: session_safe_def updateAppConfig_def logout_def updatePassword_def
      addRoom_def updateRoom_def deleteRoom_def createBooking_def updateBookingStatus_def
      updateBooking_def Let_def)

lemma perform_all_session_safe: "session_safe st \<Longrightarrow> session_safe (perform_all xs st)"
  by (induction xs arbitrary: st) (simp_all add: perform_session_safe)

lemma empty_storage_session_safe: "session_safe empty_storage"
  by (simp add: session_safe_def empty_storage_def)

text \<open>
  Claim C4. For every input and every store, a user that \<open>login\<close> or \<open>register\<close>
  resolves with has no password, and is what \<open>getCurrentUser\<close> returns next; after
  \<open>logout\<close> it returns null. In every store that the gateway makes of the empty
  store, a value that \<open>getCurrentUser\<close> returns has no password: the session entry is
  written by \<open>login\<close> and \<open>register\<close> only, without the password, and removed by
  \<open>logout\<close>. The same holds in every store made of one whose session entry is absent
  or holds no password.
\<close>

theorem password_stripped:
  "(\<forall>usr. fst (login u p st) = Some usr \<longrightarrow>
      password usr = None \<and> getCurrentUser (snd (login u p st)) = Some usr) \<and>
   (\<forall>usr. fst (register nm u p now st) = Inr usr \<longrightarrow>
      password usr = None \<and> getCurrentUser (snd (register nm u p now st)) = Some usr) \<and>
   getCurrentUser (logout st) = None \<and>
   (\<forall>usr. getCurrentUser (perform_all xs empty_storage) = Some usr \<longrightarrow>
      password usr = None) \<and>
   (app_current_user st = None \<longrightarrow> session_safe st) \<and>
   (session_safe st \<longrightarrow>
      session_safe (perform_all xs st) \<and>
      (\<forall>usr. getCurrentUser (perform_all xs st) = Some usr \<longrightarrow> password usr = None))"
proof (intro conjI allI impI)
  fix usr assume "fst (login u p st) = Some usr"
  then show "password usr = None" "getCurrentUser (snd (login u p st)) = Some usr"
    by (auto simp: login_def getCurrentUser_def Let_def split: option.splits if_splits)
next
  fix usr assume "fst (register nm u p now st) = Inr usr"
  then show "password usr = None"
    "getCurrentUser (snd (register nm u p now st)) = Some usr"
    by (auto simp: register_def getCurrentUser_def Let_def split: if_splits)
next
  show "getCurrentUser (logout st) = None"
    by (simp add: getCurrentUser_def logout_def)
next
  fix usr
  assume g: "getCurrentUser (perform_all xs empty_storage) = Some usr"
  have "session_safe (perform_all xs empty_storage)"
    by (rule perform_all_session_safe) (rule empty_storage_session_safe)
  with g show "password usr = None" by (simp add: session_safe_def getCurrentUser_def)
next
  assume "app_current_user st = None"
  then show "session_safe st" by (simp add: session_safe_def)
next
  assume "session_safe st"
  then show "session_safe (perform_all xs st)" by (rule perform_all_session_safe)
next
  fix usr
  assume "session_safe st" and g: "getCurrentUser (perform_all xs st) = Some usr"
  then have "session_safe (perform_all xs st)" by (simp add: perform_all_session_safe)
  with g show "password usr = None" by (simp add: session_safe_def getCurrentUser_def)
qed

theorem password_stripped_witness:
  "getCurrentUser (perform_all [InitializeStorage, Login ''ADMIN'' ''password'']
       (empty_storage :: unit storage)) =
     Some \<lparr>user_id = ''u1'', username = ''admin'', password = None,
           role = ADMIN, user_name = ''Administrador Principal''\<rparr> \<and>
   session_safe demo_storage \<and>
   fst (login ''ADMIN'' ''password'' demo_storage) =
     Some \<lparr>user_id = ''u1'', username = ''admin'', password = None,
           role = ADMIN, user_name = ''Administrador Principal''\<rparr> \<and>
   getCurrentUser
     (perform_all [Login ''ADMIN'' ''password'', UpdatePassword ''u1'' ''pw2''] demo_storage) =
     Some \<lparr>user_id = ''u1'', username = ''admin'', password = None,
           role = ADMIN, user_name = ''Administrador Principal''\<rparr>"
proof -
  have none: "app_current_user demo_storage = None" by (simp add: demo_storage_def)
  have ok: "fst (login ''ADMIN'' ''password'' demo_storage) =
     Some \<lparr>user_id = ''u1'', username = ''admin'', password = None,
           role = ADMIN, user_name = ''Administrador Principal''\<rparr>"
    by (simp add: login_def demo_storage_def read_users_def SEED_USERS_def lower_admin
        lower_ADMIN Let_def)
  note t = password_stripped [where u = "''ADMIN''" and p = "''password''"
      and st = demo_storage
      and xs = "[Login ''ADMIN'' ''password'', UpdatePassword ''u1'' ''pw2'']"]
  from t none have safe: "session_safe demo_storage" by blast
  from t ok have cur: "getCurrentUser (snd (login ''ADMIN'' ''password'' demo_storage)) =
     Some \<lparr>user_id = ''u1'', username = ''admin'', password = None,
           role = ADMIN, user_name = ''Administrador Principal''\<rparr>" by blast
  have after: "getCurrentUser
      (perform_all [Login ''ADMIN'' ''password'', UpdatePassword ''u1'' ''pw2''] demo_storage) =
      getCurrentUser (snd (login ''ADMIN'' ''password'' demo_storage))"
    by (simp add: getCurrentUser_def updatePassword_def Let_def)
  have seeded: "read_users (initializeStorage (empty_storage :: unit storage)) = SEED_USERS"
    by (simp add: initializeStorage_users empty_storage_def)
  have fresh: "getCurrentUser (perform_all [InitializeStorage, Login ''ADMIN'' ''password'']
       (empty_storage :: unit storage)) =
     Some \<lparr>user_id = ''u1'', username = ''admin'', password = None,
           role = ADMIN, user_name = ''Administrador Principal''\<rparr>"
    by (simp add: getCurrentUser_def login_def seeded SEED_USERS_def lower_admin
        lower_ADMIN Let_def)
  with cur safe ok after show ?thesis by simp
qed

subsection \<open>The order of the bookings\<close>

lemma mset_sort_insert: "mset (sort_insert cmp a bs) = add_mset a (mset bs)"
  by (induction bs) simp_all

lemma mset_array_sort: "mset (array_sort cmp xs) = mset xs"
  by (induction xs) (simp_all add: mset_sort_insert)

lemma set_sort_insert: "set (sort_insert cmp a bs) = insert a (set bs)"
  using mset_sort_insert [of cmp a bs, THEN arg_cong, of set_mset] by simp

lemma sorted_sort_insert:
  "sorted_wrt (\<lambda>a b. createdAt b \<le> createdAt a) bs \<Longrightarrow>
   sorted_wrt (\<lambda>a b. createdAt b \<le> createdAt a) (sort_insert newest_first x bs)"
  by (induction bs) (auto simp: set_sort_insert newest_first_def)

lemma sorted_array_sort:
  "sorted_wrt (\<lambda>a b. createdAt b \<le> createdAt a) (array_sort newest_first xs)"
  by (induction xs) (simp_all add: sorted_sort_insert)

text \<open>Bookings of the same time stamp keep the order they are stored in.\<close>

lemma filter_sort_insert_other:
  "createdAt x \<noteq> k \<Longrightarrow>
   filter (\<lambda>b. createdAt b = k) (sort_insert newest_first x bs) =
   filter (\<lambda>b. createdAt b = k) bs"
  by (induction bs) auto

lemma filter_sort_insert_same:
  "filter (\<lambda>b. createdAt b = createdAt x) (sort_insert newest_first x bs) =
   x # filter (\<lambda>b. createdAt b = createdAt x) bs"
  by (induction bs) (auto simp: newest_first_def)

lemma array_sort_stable:
  "filter (\<lambda>b. createdAt b = k) (array_sort newest_first xs) =
   filter (\<lambda>b. createdAt b = k) xs"
  by (induction xs) (auto simp: filter_sort_insert_other filter_sort_insert_same)

text \<open>
  Claim C5. For every stored collection of bookings, the list \<open>getBookings\<close> resolves
  with holds the stored bookings, each as often as it is stored, in descending order of
  \<open>createdAt\<close>: of two bookings with different time stamps the later one stands
  first.
\<close>

theorem getBookings_newest_first:
  "sorted_wrt (\<lambda>a b. createdAt b \<le> createdAt a) (getBookings st) \<and>
   mset (getBookings st) = mset (read_bookings st) \<and>
   (\<forall>i j. i < length (getBookings st) \<and> j < length (getBookings st) \<and>
      createdAt (getBookings st ! i) < createdAt (getBookings st ! j) \<longrightarrow> j < i)"
proof (intro conjI allI impI)
  show s: "sorted_wrt (\<lambda>a b. createdAt b \<le> createdAt a) (getBookings st)"
    by (simp add: getBookings_def sorted_array_sort)
  show "mset (getBookings st) = mset (read_bookings st)"
    by (simp add: getBookings_def mset_array_sort)
  fix i j
  assume a: "i < length (getBookings st) \<and> j < length (getBookings st) \<and>
      createdAt (getBookings st ! i) < createdAt (getBookings st ! j)"
  show "j < i"
  proof (rule ccontr)
    assume "\<not> j < i"
    then consider "i = j" | "i < j" by linarith
    then show False
    proof cases
      case 1
      with a show False by simp
    next
      case 2
      with s a have "createdAt (getBookings st ! j) \<le> createdAt (getBookings st ! i)"
        by (simp add: sorted_wrt_iff_nth_less)
      with a show False by simp
    qed
  qed
qed

theorem getBookings_newest_first_witness:
  "map booking_id (read_bookings demo_storage) = [''100'', ''300'', ''200''] \<and>
   map booking_id (getBookings demo_storage) = [''300'', ''200'', ''100''] \<and>
   sorted_wrt (\<lambda>a b. createdAt b \<le> createdAt a) (getBookings demo_storage)"
proof -
  have "map booking_id (getBookings demo_storage) = [''300'', ''200'', ''100'']"
    by (simp add: getBookings_def demo_storage_def read_bookings_def newest_first_def)
  moreover have "map booking_id (read_bookings demo_storage) = [''100'', ''300'', ''200'']"
    by (simp add: demo_storage_def read_bookings_def)
  ultimately show ?thesis
    using getBookings_newest_first [of demo_storage] by simp
qed

subsection \<open>Updates with an id that is not stored\<close>

lemma updateRoom_missing:
  assumes "room_id r \<notin> room_id ` set (read_rooms st)"
  shows "updateRoom r st = (True, st\<lparr>app_rooms := Some (read_rooms st)\<rparr>)"
  using map_replace_absent [OF assms, of "\<lambda>_. r"]
  by (simp add: updateRoom_def Let_def)

lemma updateBooking_missing:
  assumes "booking_id b \<notin> booking_id ` set (read_bookings st)"
  shows "updateBooking b st = (True, st\<lparr>app_bookings := Some (read_bookings st)\<rparr>)"
  using map_replace_absent [OF assms, of "\<lambda>_. b"]
  by (simp add: updateBooking_def Let_def)

lemma updateBookingStatus_missing:
  assumes "i \<notin> booking_id ` set (read_bookings st)"
  shows "updateBookingStatus i s st = (True, st\<lparr>app_bookings := Some (read_bookings st)\<rparr>)"
  using map_replace_absent [OF assms, of "\<lambda>b. b\<lparr>status := s\<rparr>"]
  by (simp add: updateBookingStatus_def Let_def)

lemma updatePassword_missing:
  assumes "i \<notin> user_id ` set (read_users st)"
  shows "updatePassword i p st = (True, st\<lparr>app_users := Some (read_users st)\<rparr>)"
  using map_replace_absent [OF assms, of "\<lambda>u. u\<lparr>password := Some p\<rparr>"]
  by (simp add: updatePassword_def Let_def)

text \<open>The keys are in the store once the module is loaded, and no operation removes one.\<close>

lemma initializeStorage_keys_present: "keys_present (initializeStorage st)"
  by (simp add: keys_present_def initializeStorage_def Let_def)

lemma perform_keys_present: "keys_present st \<Longrightarrow> keys_present (perform x st)"
proof (cases x)
  case InitializeStorage
  then show ?thesis by (simp add: initializeStorage_keys_present)
next
  case (Login u p)
  assume "keys_present st"
  with Login show ?thesis
    by (simp add: keys_present_def login_def Let_def split: option.splits)
next
  case (Register nm u p now)
  assume "keys_present st"
  with Register show ?thesis
    by (simp add: keys_present_def register_def Let_def)
qed (simp_all add: keys_present_def updateAppConfig_def logout_def updatePassword_def
      addRoom_def updateRoom_def deleteRoom_def createBooking_def updateBookingStatus_def
      updateBooking_def Let_def)

lemma perform_all_keys_present: "keys_present st \<Longrightarrow> keys_present (perform_all xs st)"
  by (induction xs arbitrary: st) (simp_all add: perform_keys_present)

lemma loaded_keys_present: "keys_present (perform_all xs (initializeStorage st0))"
  by (rule perform_all_keys_present) (rule initializeStorage_keys_present)

text \<open>
  Claim C6. In every store that an operation can meet, that is after the module was
  loaded on any store and any operations have run, and for every id that no element of
  the collection has, \<open>updateRoom\<close>, \<open>updateBooking\<close> and \<open>updateBookingStatus\<close>
  resolve with true and leave the whole store, and so the collection, exactly as it
  was. In any store at all they resolve with true and the collection read afterwards is
  the collection read before, the same elements in the same order; the store is as
  before where the key of the collection is in it.
\<close>

theorem update_missing_id_noop:
  "(room_id r \<notin> room_id ` set (read_rooms st) \<longrightarrow>
      fst (updateRoom r st) = True \<and>
      read_rooms (snd (updateRoom r st)) = read_rooms st \<and>
      (app_rooms st \<noteq> None \<longrightarrow> snd (updateRoom r st) = st)) \<and>
   (booking_id b \<notin> booking_id ` set (read_bookings st) \<longrightarrow>
      fst (updateBooking b st) = True \<and>
      read_bookings (snd (updateBooking b st)) = read_bookings st \<and>
      (app_bookings st \<noteq> None \<longrightarrow> snd (updateBooking b st) = st)) \<and>
   (i \<notin> booking_id ` set (read_bookings st) \<longrightarrow>
      fst (updateBookingStatus i s st) = True \<and>
      read_bookings (snd (updateBookingStatus i s st)) = read_bookings st \<and>
      (app_bookings st \<noteq> None \<longrightarrow> snd (updateBookingStatus i s st) = st)) \<and>
   (room_id r \<notin> room_id ` set (read_rooms (perform_all xs (initializeStorage st0))) \<longrightarrow>
      updateRoom r (perform_all xs (initializeStorage st0)) =
        (True, perform_all xs (initializeStorage st0))) \<and>
   (booking_id b \<notin> booking_id ` set (read_bookings (perform_all xs (initializeStorage st0))) \<longrightarrow>
      updateBooking b (perform_all xs (initializeStorage st0)) =
        (True, perform_all xs (initializeStorage st0))) \<and>
   (i \<notin> booking_id ` set (read_bookings (perform_all xs (initializeStorage st0))) \<longrightarrow>
      updateBookingStatus i s (perform_all xs (initializeStorage st0)) =
        (True, perform_all xs (initializeStorage st0))) \<and>
   keys_present (perform_all xs (initializeStorage st0))"
proof -
  have k: "keys_present (perform_all xs (initializeStorage st0))"
    by (rule loaded_keys_present)
  then have kr: "app_rooms (perform_all xs (initializeStorage st0)) \<noteq> None"
    and kb: "app_bookings (perform_all xs (initializeStorage st0)) \<noteq> None"
    by (simp_all add: keys_present_def)
  have any: "(room_id r \<notin> room_id ` set (read_rooms st) \<longrightarrow>
      fst (updateRoom r st) = True \<and>
      read_rooms (snd (updateRoom r st)) = read_rooms st \<and>
      (app_rooms st \<noteq> None \<longrightarrow> snd (updateRoom r st) = st)) \<and>
   (booking_id b \<notin> booking_id ` set (read_bookings st) \<longrightarrow>
      fst (updateBooking b st) = True \<and>
      read_bookings (snd (updateBooking b st)) = read_bookings st \<and>
      (app_bookings st \<noteq> None \<longrightarrow> snd (updateBooking b st) = st)) \<and>
   (i \<notin> booking_id ` set (read_bookings st) \<longrightarrow>
      fst (updateBookingStatus i s st) = True \<and>
      read_bookings (snd (updateBookingStatus i s st)) = read_bookings st \<and>
      (app_bookings st \<noteq> None \<longrightarrow> snd (updateBookingStatus i s st) = st))"
    by (simp add: updateRoom_missing updateBooking_missing updateBookingStatus_missing
        rooms_rewritten bookings_rewritten)
  have loaded: "(room_id r \<notin> room_id ` set (read_rooms (perform_all xs (initializeStorage st0))) \<longrightarrow>
      updateRoom r (perform_all xs (initializeStorage st0)) =
        (True, perform_all xs (initializeStorage st0))) \<and>
   (booking_id b \<notin> booking_id ` set (read_bookings (perform_all xs (initializeStorage st0))) \<longrightarrow>
      updateBooking b (perform_all xs (initializeStorage st0)) =
        (True, perform_all xs (initializeStorage st0))) \<and>
   (i \<notin> booking_id ` set (read_bookings (perform_all xs (initializeStorage st0))) \<longrightarrow>
      updateBookingStatus i s (perform_all xs (initializeStorage st0)) =
        (True, perform_all xs (initializeStorage st0)))"
    using kr kb
    by (simp add: updateRoom_missing updateBooking_missing updateBookingStatus_missing
        rooms_rewritten bookings_rewritten)
  from any loaded k show ?thesis by blast
qed

theorem update_missing_id_noop_witness:
  "updateRoom \<lparr>room_id = ''room-7'', room_name = ''Patio'', capacity = 5,
         features = [], imageUrl = ''''\<rparr>
       (perform_all [UpdateAppConfig SEED_CONFIG] (initializeStorage (empty_storage :: unit storage))) =
     (True, perform_all [UpdateAppConfig SEED_CONFIG] (initializeStorage empty_storage)) \<and>
   updateBookingStatus ''999'' APPROVED
       (perform_all [UpdateAppConfig SEED_CONFIG] (initializeStorage (empty_storage :: unit storage))) =
     (True, perform_all [UpdateAppConfig SEED_CONFIG] (initializeStorage empty_storage)) \<and>
   snd (updateRoom \<lparr>room_id = ''room-7'', room_name = ''Patio'', capacity = 5,
         features = [], imageUrl = ''''\<rparr> demo_storage) = demo_storage \<and>
   snd (updateBooking \<lparr>booking_id = ''999'', roomId = ''room-1'', status = REJECTED,
         createdAt = 1, details = ()\<rparr> demo_storage) = demo_storage \<and>
   snd (updateBookingStatus ''999'' APPROVED demo_storage) = demo_storage \<and>
   fst (updateBookingStatus ''999'' APPROVED demo_storage) = True"
proof -
  have r: "room_id \<lparr>room_id = ''room-7'', room_name = ''Patio'', capacity = 5,
         features = [], imageUrl = ''''\<rparr> \<notin> room_id ` set (read_rooms demo_storage)"
    by (simp add: demo_storage_def read_rooms_def SEED_ROOMS_def)
  have b: "booking_id \<lparr>booking_id = ''999'', roomId = ''room-1'', status = REJECTED,
         createdAt = 1, details = ()\<rparr> \<notin> booking_id ` set (read_bookings demo_storage)"
    by (simp add: demo_storage_def read_bookings_def)
  have i: "''999'' \<notin> booking_id ` set (read_bookings demo_storage)"
    by (simp add: demo_storage_def read_bookings_def)
  have p: "app_rooms demo_storage \<noteq> None" "app_bookings demo_storage \<noteq> None"
    by (simp_all add: demo_storage_def)
  have lr: "room_id \<lparr>room_id = ''room-7'', room_name = ''Patio'', capacity = 5,
         features = [], imageUrl = ''''\<rparr> \<notin> room_id ` set (read_rooms
       (perform_all [UpdateAppConfig SEED_CONFIG]
          (initializeStorage (empty_storage :: unit storage))))"
    by (simp add: updateAppConfig_def initializeStorage_def empty_storage_def read_rooms_def
        SEED_ROOMS_def Let_def)
  have li: "''999'' \<notin> booking_id ` set (read_bookings
       (perform_all [UpdateAppConfig SEED_CONFIG]
          (initializeStorage (empty_storage :: unit storage))))"
    by (simp add: updateAppConfig_def initializeStorage_def empty_storage_def
        read_bookings_def Let_def)
  note t = update_missing_id_noop [where r = "\<lparr>room_id = ''room-7'', room_name = ''Patio'',
      capacity = 5, features = [], imageUrl = ''''\<rparr>" and st = demo_storage
      and b = "\<lparr>booking_id = ''999'', roomId = ''room-1'', status = REJECTED, createdAt = 1,
        details = ()\<rparr>" and i = "''999''" and s = APPROVED
      and xs = "[UpdateAppConfig SEED_CONFIG]" and ?st0.0 = "empty_storage :: unit storage"]
  from t r b i p lr li show ?thesis by blast
qed

subsection \<open>Changing a password\<close>

lemma updatePassword_users:
  "read_users (snd (updatePassword i p st)) =
   map (\<lambda>u. if user_id u = i then u\<lparr>password := Some p\<rparr> else u) (read_users st)"
  by (simp add: updatePassword_def Let_def read_users_def)

text \<open>
  Claim C7. \<open>updatePassword i p\<close> resolves with true. The users keep their number and
  their places; a user whose id is \<open>i\<close> gets the password \<open>p\<close> and keeps id, user
  name, role and name; every other user is as before; no other entry of the store is
  written. When no user has the id \<open>i\<close>, the users are as before, and so is the whole
  store where it has the key of the users.
\<close>

theorem updatePassword_frame:
  "fst (updatePassword i p st) = True \<and>
   length (read_users (snd (updatePassword i p st))) = length (read_users st) \<and>
   (\<forall>n < length (read_users st).
      (user_id (read_users st ! n) = i \<longrightarrow>
         read_users (snd (updatePassword i p st)) ! n =
           (read_users st ! n)\<lparr>password := Some p\<rparr> \<and>
         password (read_users (snd (updatePassword i p st)) ! n) = Some p \<and>
         user_id (read_users (snd (updatePassword i p st)) ! n) =
           user_id (read_users st ! n) \<and>
         username (read_users (snd (updatePassword i p st)) ! n) =
           username (read_users st ! n) \<and>
         role (read_users (snd (updatePassword i p st)) ! n) = role (read_users st ! n) \<and>
         user_name (read_users (snd (updatePassword i p st)) ! n) =
           user_name (read_users st ! n)) \<and>
      (user_id (read_users st ! n) \<noteq> i \<longrightarrow>
         read_users (snd (updatePassword i p st)) ! n = read_users st ! n)) \<and>
   snd (updatePassword i p st) =
     st\<lparr>app_users := Some (read_users (snd (updatePassword i p st)))\<rparr> \<and>
   (i \<notin> user_id ` set (read_users st) \<longrightarrow>
      read_users (snd (updatePassword i p st)) = read_users st \<and>
      (app_users st \<noteq> None \<longrightarrow> snd (updatePassword i p st) = st))"
proof (intro conjI)
  show "fst (updatePassword i p st) = True"
    by (simp add: updatePassword_def Let_def)
  show "length (read_users (snd (updatePassword i p st))) = length (read_users st)"
    by (simp add: updatePassword_users)
  show "\<forall>n < length (read_users st).
      (user_id (read_users st ! n) = i \<longrightarrow>
         read_users (snd (updatePassword i p st)) ! n =
           (read_users st ! n)\<lparr>password := Some p\<rparr> \<and>
         password (read_users (snd (updatePassword i p st)) ! n) = Some p \<and>
         user_id (read_users (snd (updatePassword i p st)) ! n) =
           user_id (read_users st ! n) \<and>
         username (read_users (snd (updatePassword i p st)) ! n) =
           username (read_users st ! n) \<and>
         role (read_users (snd (updatePassword i p st)) ! n) = role (read_users st ! n) \<and>
         user_name (read_users (snd (updatePassword i p st)) ! n) =
           user_name (read_users st ! n)) \<and>
      (user_id (read_users st ! n) \<noteq> i \<longrightarrow>
         read_users (snd (updatePassword i p st)) ! n = read_users st ! n)"
    by (simp add: updatePassword_users)
  show "snd (updatePassword i p st) =
     st\<lparr>app_users := Some (read_users (snd (updatePassword i p st)))\<rparr>"
    by (simp add: updatePassword_def Let_def read_users_def)
  show "i \<notin> user_id ` set (read_users st) \<longrightarrow>
      read_users (snd (updatePassword i p st)) = read_users st \<and>
      (app_users st \<noteq> None \<longrightarrow> snd (updatePassword i p st) = st)"
    by (simp add: updatePassword_missing users_rewritten)
qed

theorem updatePassword_frame_witness:
  "read_users (snd (updatePassword ''u2'' ''nuevo'' demo_storage)) =
     [\<lparr>user_id = ''u1'', username = ''admin'', password = Some ''password'',
       role = ADMIN, user_name = ''Administrador Principal''\<rparr>,
      \<lparr>user_id = ''u2'', username = ''user'', password = Some ''nuevo'',
       role = USER, user_name = ''Juan P'' @ [CHR 0xE9] @ ''rez''\<rparr>] \<and>
   snd (updatePassword ''u9'' ''nuevo'' demo_storage) = demo_storage \<and>
   fst (updatePassword ''u9'' ''nuevo'' demo_storage) = True"
proof -
  have us: "read_users demo_storage = SEED_USERS"
    by (simp add: demo_storage_def read_users_def)
  have len: "length (read_users (snd (updatePassword ''u2'' ''nuevo'' demo_storage))) = 2"
    using updatePassword_frame [of "''u2''" "''nuevo''" demo_storage]
    by (simp add: us SEED_USERS_def)
  have n0: "read_users (snd (updatePassword ''u2'' ''nuevo'' demo_storage)) ! 0 =
      SEED_USERS ! 0"
    using updatePassword_frame [of "''u2''" "''nuevo''" demo_storage]
    by (simp add: us SEED_USERS_def)
  have n1: "read_users (snd (updatePassword ''u2'' ''nuevo'' demo_storage)) ! 1 =
      (SEED_USERS ! 1)\<lparr>password := Some ''nuevo''\<rparr>"
    using updatePassword_frame [of "''u2''" "''nuevo''" demo_storage]
    by (simp add: us SEED_USERS_def)
  have a: "read_users (snd (updatePassword ''u2'' ''nuevo'' demo_storage)) =
      [SEED_USERS ! 0, (SEED_USERS ! 1)\<lparr>password := Some ''nuevo''\<rparr>]"
    using len n0 n1 by (simp add: list_eq_iff_nth_eq less_Suc_eq numeral_2_eq_2)
  have miss: "''u9'' \<notin> user_id ` set (read_users demo_storage)"
    by (simp add: us SEED_USERS_def)
  have pres: "app_users demo_storage \<noteq> None" by (simp add: demo_storage_def)
  from updatePassword_frame [of "''u9''" "''nuevo''" demo_storage] miss pres
  have b: "snd (updatePassword ''u9'' ''nuevo'' demo_storage) = demo_storage"
    and c: "fst (updatePassword ''u9'' ''nuevo'' demo_storage) = True" by blast+
  from a b c show ?thesis by (simp add: SEED_USERS_def)
qed

subsection \<open>Initialisation\<close>

lemma initializeStorage_entries:
  "app_rooms (initializeStorage st) =
     (case app_rooms st of None \<Rightarrow> Some SEED_ROOMS | Some v \<Rightarrow> Some v)"
  "app_bookings (initializeStorage st) =
     (case app_bookings st of None \<Rightarrow> Some [] | Some v \<Rightarrow> Some v)"
  "app_users (initializeStorage st) =
     (case app_users st of None \<Rightarrow> Some SEED_USERS | Some v \<Rightarrow> Some v)"
  "app_config (initializeStorage st) =
     (case app_config st of None \<Rightarrow> Some SEED_CONFIG | Some v \<Rightarrow> Some v)"
  "app_current_user (initializeStorage st) = app_current_user st"
  by (simp_all add: initializeStorage_def Let_def split: option.splits)

lemma initializeStorage_present:
  "app_rooms st \<noteq> None \<Longrightarrow> app_bookings st \<noteq> None \<Longrightarrow> app_users st \<noteq> None \<Longrightarrow>
   app_config st \<noteq> None \<Longrightarrow> initializeStorage st = st"
  by (simp add: initializeStorage_def Let_def)

text \<open>
  Claim C8. From any store, \<open>initializeStorage\<close> run twice leaves the store that one
  run leaves. A run writes the seed of a collection where its key is absent and leaves
  the entry alone where it is present; the session entry is never written.
\<close>

theorem initializeStorage_idempotent:
  "initializeStorage (initializeStorage st) = initializeStorage st \<and>
   (app_rooms st = None \<longrightarrow> app_rooms (initializeStorage st) = Some SEED_ROOMS) \<and>
   (app_rooms st \<noteq> None \<longrightarrow> app_rooms (initializeStorage st) = app_rooms st) \<and>
   (app_bookings st = None \<longrightarrow> app_bookings (initializeStorage st) = Some []) \<and>
   (app_bookings st \<noteq> None \<longrightarrow> app_bookings (initializeStorage st) = app_bookings st) \<and>
   (app_users st = None \<longrightarrow> app_users (initializeStorage st) = Some SEED_USERS) \<and>
   (app_users st \<noteq> None \<longrightarrow> app_users (initializeStorage st) = app_users st) \<and>
   (app_config st = None \<longrightarrow> app_config (initializeStorage st) = Some SEED_CONFIG) \<and>
   (app_config st \<noteq> None \<longrightarrow> app_config (initializeStorage st) = app_config st) \<and>
   app_current_user (initializeStorage st) = app_current_user st"
proof -
  have "initializeStorage (initializeStorage st) = initializeStorage st"
    by (rule initializeStorage_present)
      (simp_all add: initializeStorage_entries split: option.splits)
  then show ?thesis
    by (auto simp: initializeStorage_entries)
qed

theorem initializeStorage_idempotent_witness:
  "initializeStorage (empty_storage :: unit storage) =
     \<lparr>app_users = Some SEED_USERS, app_rooms = Some SEED_ROOMS, app_bookings = Some [],
      app_current_user = None, app_config = Some SEED_CONFIG\<rparr> \<and>
   initializeStorage (initializeStorage (empty_storage :: unit storage)) =
     \<lparr>app_users = Some SEED_USERS, app_rooms = Some SEED_ROOMS, app_bookings = Some [],
      app_current_user = None, app_config = Some SEED_CONFIG\<rparr> \<and>
   app_rooms (initializeStorage demo_storage) = app_rooms demo_storage"
proof -
  have e: "initializeStorage (empty_storage :: unit storage) =
     \<lparr>app_users = Some SEED_USERS, app_rooms = Some SEED_ROOMS, app_bookings = Some [],
      app_current_user = None, app_config = Some SEED_CONFIG\<rparr>"
    by (simp add: initializeStorage_def empty_storage_def Let_def)
  have p: "app_rooms demo_storage \<noteq> None" by (simp add: demo_storage_def)
  from initializeStorage_idempotent [of "empty_storage :: unit storage"] e
  have "initializeStorage (initializeStorage (empty_storage :: unit storage)) =
     \<lparr>app_users = Some SEED_USERS, app_rooms = Some SEED_ROOMS, app_bookings = Some [],
      app_current_user = None, app_config = Some SEED_CONFIG\<rparr>" by simp
  moreover from initializeStorage_idempotent [of demo_storage] p
  have "app_rooms (initializeStorage demo_storage) = app_rooms demo_storage" by blast
  ultimately show ?thesis using e by simp
qed

subsection \<open>Deleting a room that is not stored\<close>

text \<open>
  Claim C9. For every id \<open>r\<close> that no stored room has, \<open>deleteRoom r\<close> resolves with
  true and leaves the rooms as they were (the entry itself, where the key is in the
  store), and all the same removes every booking whose \<open>roomId\<close> is \<open>r\<close>, as many as
  there are, and no other.
\<close>

theorem deleteRoom_unknown_room:
  "r \<notin> room_id ` set (read_rooms st) \<longrightarrow>
     fst (deleteRoom r st) = True \<and>
     read_rooms (snd (deleteRoom r st)) = read_rooms st \<and>
     (app_rooms st \<noteq> None \<longrightarrow> app_rooms (snd (deleteRoom r st)) = app_rooms st) \<and>
     read_bookings (snd (deleteRoom r st)) =
       filter (\<lambda>b. roomId b \<noteq> r) (read_bookings st) \<and>
     (\<forall>b \<in> set (read_bookings (snd (deleteRoom r st))). roomId b \<noteq> r) \<and>
     length (read_bookings (snd (deleteRoom r st))) =
       length (read_bookings st) - length (filter (\<lambda>b. roomId b = r) (read_bookings st))"
proof
  assume m: "r \<notin> room_id ` set (read_rooms st)"
  have len: "length (filter (\<lambda>b. roomId b \<noteq> r) (read_bookings st)) =
       length (read_bookings st) - length (filter (\<lambda>b. roomId b = r) (read_bookings st))"
    using sum_length_filter_compl [of "\<lambda>b. roomId b = r" "read_bookings st"] by simp
  from m have rs: "read_rooms (snd (deleteRoom r st)) = read_rooms st"
    by (simp add: deleteRoom_def Let_def read_rooms_def filter_absent split: option.splits)
  from m have pres:
    "app_rooms st \<noteq> None \<longrightarrow> app_rooms (snd (deleteRoom r st)) = app_rooms st"
    by (auto simp: deleteRoom_def Let_def read_rooms_def filter_absent)
  have bs: "read_bookings (snd (deleteRoom r st)) =
      filter (\<lambda>b. roomId b \<noteq> r) (read_bookings st)"
    by (simp add: deleteRoom_def Let_def read_bookings_def)
  show "fst (deleteRoom r st) = True \<and>
     read_rooms (snd (deleteRoom r st)) = read_rooms st \<and>
     (app_rooms st \<noteq> None \<longrightarrow> app_rooms (snd (deleteRoom r st)) = app_rooms st) \<and>
     read_bookings (snd (deleteRoom r st)) =
       filter (\<lambda>b. roomId b \<noteq> r) (read_bookings st) \<and>
     (\<forall>b \<in> set (read_bookings (snd (deleteRoom r st))). roomId b \<noteq> r) \<and>
     length (read_bookings (snd (deleteRoom r st))) =
       length (read_bookings st) - length (filter (\<lambda>b. roomId b = r) (read_bookings st))"
    using rs pres bs len by (simp add: deleteRoom_def Let_def)
qed

theorem deleteRoom_unknown_room_witness:
  "''room-9'' \<notin> room_id ` set (read_rooms demo_storage) \<and>
   app_rooms (snd (deleteRoom ''room-9'' demo_storage)) = app_rooms demo_storage \<and>
   map booking_id (read_bookings demo_storage) = [''100'', ''300'', ''200''] \<and>
   map booking_id (read_bookings (snd (deleteRoom ''room-9'' demo_storage))) =
     [''100'', ''300'']"
proof -
  have m: "''room-9'' \<notin> room_id ` set (read_rooms demo_storage)"
    by (simp add: demo_storage_def read_rooms_def SEED_ROOMS_def)
  have p: "app_rooms demo_storage \<noteq> None" by (simp add: demo_storage_def)
  have bs: "read_bookings demo_storage =
        [\<lparr>booking_id = ''100'', roomId = ''room-1'', status = PENDING,
          createdAt = 100, details = ()\<rparr>,
         \<lparr>booking_id = ''300'', roomId = ''room-2'', status = APPROVED,
          createdAt = 300, details = ()\<rparr>,
         \<lparr>booking_id = ''200'', roomId = ''room-9'', status = PENDING,
          createdAt = 200, details = ()\<rparr>]"
    by (simp add: demo_storage_def read_bookings_def)
  from deleteRoom_unknown_room [of "''room-9''" demo_storage] m p
  have a: "app_rooms (snd (deleteRoom ''room-9'' demo_storage)) = app_rooms demo_storage"
    and b: "read_bookings (snd (deleteRoom ''room-9'' demo_storage)) =
      filter (\<lambda>b. roomId b \<noteq> ''room-9'') (read_bookings demo_storage)"
    by blast+
  from m a b show ?thesis by (simp add: bs)
qed

subsection \<open>Absent keys\<close>

text \<open>
  Claim C10. Where the key of a collection is absent, \<open>getRooms\<close> and \<open>getBookings\<close>
  resolve with the empty list, \<open>getAppConfig\<close> with the seed configuration, and
  \<open>getCurrentUser\<close> returns null. No operation fails there: each one resolves, and
  with what it resolves with on the empty collection.
\<close>

theorem reads_on_missing_keys:
  "(app_rooms st = None \<longrightarrow> getRooms st = []) \<and>
   (app_bookings st = None \<longrightarrow> getBookings st = []) \<and>
   (app_config st = None \<longrightarrow> getAppConfig st = SEED_CONFIG) \<and>
   (app_current_user st = None \<longrightarrow> getCurrentUser st = None) \<and>
   (app_users st = None \<longrightarrow>
      fst (login u p st) = None \<and>
      fst (register nm u p now st) =
        Inr \<lparr>user_id = ''u-'' @ toString now, username = u, password = None,
             role = USER, user_name = nm\<rparr> \<and>
      updatePassword i p st = (True, st\<lparr>app_users := Some []\<rparr>)) \<and>
   (app_rooms st = None \<longrightarrow>
      updateRoom r st = (True, st\<lparr>app_rooms := Some []\<rparr>) \<and>
      addRoom r now st =
        (True, st\<lparr>app_rooms := Some [r\<lparr>room_id := ''room-'' @ toString now\<rparr>]\<rparr>) \<and>
      fst (deleteRoom i st) = True \<and> app_rooms (snd (deleteRoom i st)) = Some []) \<and>
   (app_bookings st = None \<longrightarrow>
      updateBooking b st = (True, st\<lparr>app_bookings := Some []\<rparr>) \<and>
      updateBookingStatus i s st = (True, st\<lparr>app_bookings := Some []\<rparr>) \<and>
      createBooking b now now2 st =
        (True, st\<lparr>app_bookings :=
           Some [b\<lparr>booking_id := toString now, status := PENDING,
                   createdAt := int now2\<rparr>]\<rparr>) \<and>
      fst (deleteRoom i st) = True \<and> app_bookings (snd (deleteRoom i st)) = Some [])"
  by (simp add: getRooms_def getBookings_def getAppConfig_def getCurrentUser_def
      read_rooms_def read_bookings_def read_users_def login_def register_def
      updatePassword_def updateRoom_def addRoom_def deleteRoom_def updateBooking_def
      updateBookingStatus_def createBooking_def Let_def)

theorem reads_on_missing_keys_witness:
  "getRooms (empty_storage :: unit storage) = [] \<and>
   getBookings (empty_storage :: unit storage) = [] \<and>
   getAppConfig (empty_storage :: unit storage) =
     \<lparr>appName = ''Parish Booker'', appLogo = ''fa-church''\<rparr> \<and>
   getCurrentUser (empty_storage :: unit storage) = None \<and>
   fst (login ''admin'' ''password'' (empty_storage :: unit storage)) = None"
proof -
  have k: "app_rooms (empty_storage :: unit storage) = None"
    "app_bookings (empty_storage :: unit storage) = None"
    "app_config (empty_storage :: unit storage) = None"
    "app_current_user (empty_storage :: unit storage) = None"
    "app_users (empty_storage :: unit storage) = None"
    by (simp_all add: empty_storage_def)
  from reads_on_missing_keys [of "empty_storage :: unit storage" "''admin''" "''password''"] k
  show ?thesis by (simp add: SEED_CONFIG_def)
qed

end
